theory Spec2Isabelle
  imports Complex_Main
begin

section \<open>Numbers and rows\<close>

text \<open>
  The Python code computes on double-precision floats and on numpy arrays of them.
  Every float is modelled as a \<^typ>\<open>real\<close>: the arithmetic below is the exact
  arithmetic that the float operations approximate. The constants of the source are
  written as the source writes them (\<open>0.4\<close>, \<open>0.95\<close>, ...).

  The classification head of every network is \<open>Dense(3, activation="softmax")\<close>,
  so one row of \<open>action_probs\<close>, \<open>details['bagging']\<close>, ... has exactly three
  entries. A row is a triple; the numpy functions work on the list of its entries.
\<close>

type_synonym row = "real \<times> real \<times> real"

definition entries :: "row \<Rightarrow> real list" where
  "entries r = (case r of (a, b, c) \<Rightarrow> [a, b, c])"

text \<open>
  \<open>np.argmax\<close>: the index of the first occurrence of the maximum. The scan keeps
  the best value seen so far and its index, and moves only on a strictly greater
  entry, so the lowest index wins on a tie. numpy raises on an empty array; the
  functions below are only ever applied to the three entries of a row.
\<close>

fun argmax_from :: "real \<Rightarrow> nat \<Rightarrow> nat \<Rightarrow> real list \<Rightarrow> nat" where
  "argmax_from best bi i [] = bi"
| "argmax_from best bi i (x # xs) =
     (if best < x then argmax_from x i (Suc i) xs else argmax_from best bi (Suc i) xs)"

fun argmax :: "real list \<Rightarrow> nat" where
  "argmax [] = 0"
| "argmax (x # xs) = argmax_from x 0 1 xs"

text \<open>\<open>np.max\<close> of a non-empty array.\<close>

fun amax :: "real list \<Rightarrow> real" where
  "amax [] = 0"
| "amax (x # xs) = fold max xs x"

section \<open>model.py: what EnsemblePredictor.predict returns\<close>

text \<open>
  \<open>EnsemblePredictor.predict\<close> returns \<open>(final_action, final_delta, details)\<close>,
  arrays that share their first (batch) dimension. One element of the batch is an
  \<open>ens_row\<close>: the rows \<open>action_probs[i]\<close>, \<open>deltas[i][0]\<close>,
  \<open>details['bagging'][i]\<close>, \<open>details['boosting'][i]\<close> and
  \<open>details['stacking'][i]\<close>. The networks that produce the three method outputs
  are not modelled; how \<open>predict\<close> combines them is.
\<close>

record ens_row =
  action_probs :: row
  delta :: real
  bagging :: row
  boosting :: row
  stacking :: row

text \<open>\<open>final_action = (avg_action + weighted_action + stacked_action) / 3\<close>, on one row.\<close>

definition final_action :: "row \<Rightarrow> row \<Rightarrow> row \<Rightarrow> row" where
  "final_action avg_action weighted_action stacked_action =
     (case (avg_action, weighted_action, stacked_action) of
        ((a0, a1, a2), (w0, w1, w2), (s0, s1, s2)) \<Rightarrow>
          ((a0 + w0 + s0) / 3, (a1 + w1 + s1) / 3, (a2 + w2 + s2) / 3))"

text \<open>
  The part of \<open>predict\<close> under \<open># Combine all methods\<close>: the row returned for the
  outputs \<open>(action, delta)\<close> of bagging, boosting and stacking.
\<close>

definition combine_methods :: "row \<times> real \<Rightarrow> row \<times> real \<Rightarrow> row \<times> real \<Rightarrow> ens_row" where
  "combine_methods avg weighted stacked =
     (case (avg, weighted, stacked) of
        ((avg_action, avg_delta), (weighted_action, weighted_delta), (stacked_action, stacked_delta)) \<Rightarrow>
          \<lparr> action_probs = final_action avg_action weighted_action stacked_action,
            delta = (avg_delta + weighted_delta + stacked_delta) / 3,
            bagging = avg_action,
            boosting = weighted_action,
            stacking = stacked_action \<rparr>)"

section \<open>model.py: ConfidenceCalibrator (the multiplicative policy)\<close>

text \<open>
  \<open>ConfidenceCalibrator.ensemble_confidence_boost\<close> of \<open>model.py\<close>, statement by
  statement: the agreement boost, its multiplication by 1.6 on unanimous agreement,
  the product with the base confidence, the multiplication by 1.1 on high
  agreement, and the cap. The parameter \<open>n_models\<close> is not read.
\<close>

definition ensemble_confidence_boost :: "real \<Rightarrow> real \<Rightarrow> int \<Rightarrow> real" where
  "ensemble_confidence_boost base_confidence agreement_rate n_models =
     (let agreement_boost = 1.0 + (agreement_rate - 0.5) * 0.4;
          agreement_boost = (if agreement_rate = 1.0 then agreement_boost * 1.6
                             else agreement_boost);
          boosted = base_confidence * agreement_boost;
          boosted = (if agreement_rate \<ge> 0.8 then boosted * 1.1 else boosted)
      in min boosted 0.95)"

section \<open>model.py: HighConfidencePredictor\<close>

text \<open>The dictionary appended to \<open>results\<close>, with \<open>ensemble_details\<close> flattened.\<close>

record result =
  res_class :: nat
  res_confidence :: real
  res_delta :: real
  res_agreement_rate :: real
  res_bagging :: nat
  res_boosting :: nat
  res_stacking :: nat

text \<open>The condition and the assignment under \<open># Ensure minimum confidence\<close>.\<close>

definition floor_applies :: "real \<Rightarrow> real \<Rightarrow> real \<Rightarrow> bool" where
  "floor_applies min_confidence boosted_confidence agreement_rate =
     (boosted_confidence < min_confidence \<and> agreement_rate \<ge> 0.67)"

definition ensure_minimum_confidence :: "real \<Rightarrow> real \<Rightarrow> real \<Rightarrow> real" where
  "ensure_minimum_confidence min_confidence boosted_confidence agreement_rate =
     (if floor_applies min_confidence boosted_confidence agreement_rate
      then min_confidence + 0.05 else boosted_confidence)"

text \<open>
  The body of the loop of \<open>predict_ensemble_high_confidence\<close>, stage by stage:
  the three method predictions, the agreement rate against the final prediction,
  the boosted confidence, and the result.
\<close>

definition hc_predictions :: "ens_row \<Rightarrow> nat list" where
  "hc_predictions s =
     (let bagging_pred = argmax (entries (bagging s));
          boosting_pred = argmax (entries (boosting s));
          stacking_pred = argmax (entries (stacking s))
      in [bagging_pred, boosting_pred, stacking_pred])"

definition hc_agreement_rate :: "ens_row \<Rightarrow> real" where
  "hc_agreement_rate s =
     (let predictions = hc_predictions s;
          final_pred = argmax (entries (action_probs s));
          agreement_count = sum_list (map (\<lambda>p. 1) (filter (\<lambda>p. p = final_pred) predictions))
      in real agreement_count / real (length predictions))"

definition hc_boosted_confidence :: "ens_row \<Rightarrow> real" where
  "hc_boosted_confidence s =
     (let base_confidence = amax (entries (action_probs s))
      in ensemble_confidence_boost base_confidence (hc_agreement_rate s) 5)"

definition hc_result :: "real \<Rightarrow> ens_row \<Rightarrow> result" where
  "hc_result min_confidence s =
     (let bagging_pred = argmax (entries (bagging s));
          boosting_pred = argmax (entries (boosting s));
          stacking_pred = argmax (entries (stacking s));
          final_pred = argmax (entries (action_probs s));
          agreement_rate = hc_agreement_rate s;
          boosted_confidence =
            ensure_minimum_confidence min_confidence (hc_boosted_confidence s) agreement_rate
      in \<lparr> res_class = final_pred,
           res_confidence = boosted_confidence,
           res_delta = delta s,
           res_agreement_rate = agreement_rate,
           res_bagging = bagging_pred,
           res_boosting = boosting_pred,
           res_stacking = stacking_pred \<rparr>)"

definition predict_ensemble_high_confidence :: "real \<Rightarrow> ens_row list \<Rightarrow> result list" where
  "predict_ensemble_high_confidence min_confidence rows = map (hc_result min_confidence) rows"

section \<open>models/confidence-calibration.py (the additive policy)\<close>

text \<open>
  The definitions of this module carry the prefix \<open>cc\<close> where \<open>model.py\<close> has a
  function of the same name.

  \<open>ConfidenceCalibrator.temperature_scaling\<close>: the logits divided by the
  temperature, then the softmax with the row maximum subtracted.
\<close>

definition temperature_scaling :: "real list \<Rightarrow> real \<Rightarrow> real list" where
  "temperature_scaling logits temperature =
     (let scaled_logits = map (\<lambda>x. x / temperature) logits;
          exp_logits = map (\<lambda>x. exp (x - amax scaled_logits)) scaled_logits
      in map (\<lambda>e. e / sum_list exp_logits) exp_logits)"

text \<open>\<open>ConfidenceCalibrator.ensemble_confidence_boost\<close> of this module.\<close>

definition cc_ensemble_confidence_boost :: "real \<Rightarrow> real \<Rightarrow> int \<Rightarrow> real" where
  "cc_ensemble_confidence_boost base_confidence agreement_rate n_models =
     (let agreement_bonus = agreement_rate * 0.3;
          model_bonus = min (real_of_int n_models / 10) 0.1;
          boosted = base_confidence + agreement_bonus + model_bonus
      in min boosted 0.99)"

text \<open>
  The loop body of this module's \<open>predict_ensemble_high_confidence\<close>. The
  agreement rate counts the method predictions equal to \<open>all_preds[0]\<close>; the
  class and the base confidence come from the temperature-scaled probabilities
  (temperature 1.2, on \<open>np.log(probs + 1e-10)\<close>).
\<close>

definition cc_all_preds :: "ens_row \<Rightarrow> nat list" where
  "cc_all_preds s =
     (let bagging_pred = argmax (entries (bagging s));
          boosting_pred = argmax (entries (boosting s));
          stacking_pred = argmax (entries (stacking s))
      in [bagging_pred, boosting_pred, stacking_pred])"

definition cc_agreement_rate :: "ens_row \<Rightarrow> real" where
  "cc_agreement_rate s =
     (let all_preds = cc_all_preds s
      in real (sum_list (map (\<lambda>p. if p = all_preds ! 0 then 1 else 0) all_preds))
           / real (length all_preds))"

definition cc_scaled_probs :: "ens_row \<Rightarrow> real list" where
  "cc_scaled_probs s =
     temperature_scaling (map (\<lambda>p. ln (p + 1 / 10 ^ 10)) (entries (action_probs s))) 1.2"

definition cc_base_confidence :: "ens_row \<Rightarrow> real" where
  "cc_base_confidence s =
     (let scaled_probs = cc_scaled_probs s;
          pred_class = argmax scaled_probs
      in scaled_probs ! pred_class)"

text \<open>
  From \<open># Boost based on ensemble agreement\<close> to just before the floor: the
  additive boost, and the additional factor 1.2 with its own cap when all agree.
\<close>

definition cc_boosted_confidence :: "real \<Rightarrow> real \<Rightarrow> real" where
  "cc_boosted_confidence base_confidence agreement_rate =
     (let boosted_confidence = cc_ensemble_confidence_boost base_confidence agreement_rate 5
      in if agreement_rate = 1.0 then min (boosted_confidence * 1.2) 0.95
         else boosted_confidence)"

text \<open>The confidence the loop body reports for a base confidence and an agreement rate.\<close>

definition cc_confidence :: "real \<Rightarrow> real \<Rightarrow> real \<Rightarrow> real" where
  "cc_confidence min_confidence base_confidence agreement_rate =
     ensure_minimum_confidence min_confidence
       (cc_boosted_confidence base_confidence agreement_rate) agreement_rate"

record cc_result = result +
  res_probabilities :: "real list"

definition cc_result :: "real \<Rightarrow> ens_row \<Rightarrow> cc_result" where
  "cc_result min_confidence s =
     (let bagging_pred = argmax (entries (bagging s));
          boosting_pred = argmax (entries (boosting s));
          stacking_pred = argmax (entries (stacking s));
          agreement_rate = cc_agreement_rate s;
          scaled_probs = cc_scaled_probs s;
          pred_class = argmax scaled_probs;
          boosted_confidence = cc_confidence min_confidence (cc_base_confidence s) agreement_rate
      in \<lparr> res_class = pred_class,
           res_confidence = boosted_confidence,
           res_delta = delta s,
           res_agreement_rate = agreement_rate,
           res_bagging = bagging_pred,
           res_boosting = boosting_pred,
           res_stacking = stacking_pred,
           res_probabilities = scaled_probs \<rparr>)"

definition cc_predict_ensemble_high_confidence :: "real \<Rightarrow> ens_row list \<Rightarrow> cc_result list" where
  "cc_predict_ensemble_high_confidence min_confidence rows = map (cc_result min_confidence) rows"

section \<open>model.py: loading the ensemble\<close>

text \<open>
  Exceptions are values. \<open>Raised\<close> is an exception that comes out of a library
  call (pandas, tensorflow, pickle); \<open>str\<close> is Python's \<open>str(e)\<close>.
\<close>

datatype error =
    RuntimeError string
  | ValueError string
  | IndexError string
  | KeyError string
  | AttributeError string
  | Raised string

fun str :: "error \<Rightarrow> string" where
  "str (RuntimeError msg) = msg"
| "str (ValueError msg) = msg"
| "str (IndexError msg) = msg"
| "str (KeyError msg) = msg"
| "str (AttributeError msg) = msg"
| "str (Raised msg) = msg"

text \<open>
  The directory \<open>load\<close> reads. A file that exists either loads (\<open>Stored\<close>) or makes
  the loader raise (\<open>Unreadable\<close>). \<open>base_model_files\<close> lists the indices \<open>i\<close> for
  which \<open>base_model_i.keras\<close> exists; a loaded network is a value of the type
  parameter.
\<close>

datatype 'a artifact = Unreadable string | Stored 'a

record 'm model_dir =
  base_model_files :: "(nat \<times> 'm artifact) list"
  meta_model_file :: "'m artifact option"
  model_weights_file :: "real list artifact option"

record 'm ensemble =
  n_models :: nat
  base_models :: "'m list"
  meta_model :: "'m option"
  model_weights :: "real list option"

definition EnsemblePredictor :: "nat \<Rightarrow> 'm ensemble" where
  "EnsemblePredictor n =
     \<lparr> n_models = n, base_models = [], meta_model = None, model_weights = None \<rparr>"

text \<open>
  The \<open>while\<close> loop of \<open>EnsemblePredictor.load\<close>: it loads \<open>base_model_i.keras\<close>
  for \<open>i = 0, 1, ...\<close> until the first index whose file does not exist. The result
  is the exception raised, if any, and the models appended so far.
\<close>

function load_base_models ::
  "(nat \<times> 'm artifact) list \<Rightarrow> nat \<Rightarrow> 'm list \<Rightarrow> error option \<times> 'm list" where
  "load_base_models files i loaded =
     (case map_of files i of
        None \<Rightarrow> (None, loaded)
      | Some (Unreadable msg) \<Rightarrow> (Some (Raised msg), loaded)
      | Some (Stored model) \<Rightarrow> load_base_models files (Suc i) (loaded @ [model]))"
  by pat_completeness auto
termination
proof (relation "measure (\<lambda>(files, i, loaded). length (filter (\<lambda>(j, a). i \<le> j) files))")
  show "wf (measure (\<lambda>(files, i, loaded). length (filter (\<lambda>(j, a). i \<le> j) files)))"
    by simp
next
  fix files :: "(nat \<times> 'm artifact) list" and i :: nat and loaded :: "'m list"
    and x2 :: "'m artifact" and model :: 'm
  assume "map_of files i = Some x2" and "x2 = Stored model"
  then have mem: "(i, Stored model) \<in> set (filter (\<lambda>(j, a). i \<le> j) files)"
    by (auto dest: map_of_SomeD)
  have "filter (\<lambda>(j, a). Suc i \<le> j) files
      = filter (\<lambda>(j, a). Suc i \<le> j) (filter (\<lambda>(j, a). i \<le> j) files)"
    by (auto intro: filter_cong)
  moreover have "length (filter (\<lambda>(j, a). Suc i \<le> j) (filter (\<lambda>(j, a). i \<le> j) files))
      < length (filter (\<lambda>(j, a). i \<le> j) files)"
    using mem by (rule length_filter_less) simp
  ultimately show "((files, Suc i, loaded @ [model]), (files, i, loaded))
      \<in> measure (\<lambda>(files, i, loaded). length (filter (\<lambda>(j, a). i \<le> j) files))"
    by simp
qed

definition load_meta_model :: "'m ensemble \<Rightarrow> 'm model_dir \<Rightarrow> error option \<times> 'm ensemble" where
  "load_meta_model self dir =
     (case meta_model_file dir of
        None \<Rightarrow> (None, self)
      | Some (Unreadable msg) \<Rightarrow> (Some (Raised msg), self)
      | Some (Stored model) \<Rightarrow> (None, self\<lparr>meta_model := Some model\<rparr>))"

definition load_model_weights :: "'m ensemble \<Rightarrow> 'm model_dir \<Rightarrow> error option \<times> 'm ensemble" where
  "load_model_weights self dir =
     (case model_weights_file dir of
        None \<Rightarrow> (None, self)
      | Some (Unreadable msg) \<Rightarrow> (Some (Raised msg), self)
      | Some (Stored weights) \<Rightarrow> (None, self\<lparr>model_weights := Some weights\<rparr>))"

text \<open>
  \<open>EnsemblePredictor.load\<close>: the base models, then the meta model, then the
  weights. It mutates \<open>self\<close>, so an exception leaves what was loaded before it.
\<close>

definition load :: "'m ensemble \<Rightarrow> 'm model_dir \<Rightarrow> error option \<times> 'm ensemble" where
  "load self dir =
     (case load_base_models (base_model_files dir) 0 [] of
        (Some e, loaded) \<Rightarrow> (Some e, self\<lparr>base_models := loaded\<rparr>)
      | (None, loaded) \<Rightarrow>
          (case load_meta_model (self\<lparr>base_models := loaded\<rparr>) dir of
             (Some e, self) \<Rightarrow> (Some e, self)
           | (None, self) \<Rightarrow> load_model_weights self dir))"

section \<open>model.py: HFTModel\<close>

text \<open>
  The fields of \<open>HFTModel\<close>. The calibrator is its temperature; \<open>predictor\<close> tells
  whether \<open>self.predictor\<close> has been set (it holds the ensemble and the calibrator
  again).
\<close>

record 'm hft_model =
  ensemble :: "'m ensemble option"
  calibrator :: "real option"
  predictor :: bool
  is_loaded :: bool
  window_size :: nat
  n_indicators :: nat

definition HFTModel :: "'m hft_model" where
  "HFTModel = \<lparr> ensemble = None, calibrator = None, predictor = False, is_loaded = False,
                window_size = 128, n_indicators = 10 \<rparr>"

definition action_map :: "nat \<rightharpoonup> string" where
  "action_map = [0 \<mapsto> ''SELL'', 1 \<mapsto> ''HOLD'', 2 \<mapsto> ''BUY'']"

text \<open>
  \<open>HFTModel.load_ensemble\<close>: the \<open>try\<close> block sets \<open>is_loaded\<close> after \<open>load\<close>
  returned; the \<open>except\<close> block clears it.
\<close>

definition load_ensemble :: "'m hft_model \<Rightarrow> 'm model_dir \<Rightarrow> 'm hft_model" where
  "load_ensemble self dir =
     (case load (EnsemblePredictor 5) dir of
        (None, ens) \<Rightarrow>
          self\<lparr>ensemble := Some ens, calibrator := Some 1.5, predictor := True, is_loaded := True\<rparr>
      | (Some e, ens) \<Rightarrow> self\<lparr>ensemble := Some ens, is_loaded := False\<rparr>)"

text \<open>
  One row of the price table, as \<open>predict\<close> reads it: the \<open>datetime\<close> and
  \<open>price\<close> columns, and the other columns by name (a column that is missing or
  holds NaN has no value).
\<close>

record tick =
  tk_datetime :: string
  tk_price :: real
  tk_columns :: "string \<rightharpoonup> real"

text \<open>The dictionary \<open>predict\<close> returns, with \<open>details\<close> flattened.\<close>

record decision =
  d_symbol :: string
  d_action :: string
  d_confidence :: real
  d_delta :: real
  d_ensemble_agreement :: bool
  d_agreement_rate :: real
  d_bagging :: string
  d_boosting :: string
  d_stacking :: string
  d_timestamp :: string
  d_price :: real

definition normalize :: "real list \<Rightarrow> real list" where
  "normalize prices =
     (let price_mean = sum_list prices / real (length prices);
          price_std = sqrt (sum_list (map (\<lambda>p. (p - price_mean)\<^sup>2) prices) / real (length prices))
                        + 1 / 10 ^ 8
      in map (\<lambda>p. (p - price_mean) / price_std) prices)"

definition indicator_columns :: "string list" where
  "indicator_columns = [''rsi_14'', ''ema_8'', ''ema_21'', ''macd'', ''macd_signal'',
                        ''macd_hist'', ''bb_up'', ''bb_low'', ''atr_14'', ''vwap_60'']"

definition indicators_of :: "tick \<Rightarrow> real list" where
  "indicators_of last_row =
     map (\<lambda>col. case tk_columns last_row col of Some val \<Rightarrow> val | None \<Rightarrow> 0.0) indicator_columns"

text \<open>\<open>self.action_map[int(k)]\<close>: a key outside the dictionary raises.\<close>

definition lookup_action :: "nat \<Rightarrow> error + string" where
  "lookup_action k = (case action_map k of Some a \<Rightarrow> Inr a | None \<Rightarrow> Inl (KeyError ''action_map''))"

text \<open>The part of \<open>predict\<close> under \<open># Format response\<close>.\<close>

definition format_response :: "string \<Rightarrow> tick \<Rightarrow> result \<Rightarrow> error + decision" where
  "format_response symbol last_row result =
     (case lookup_action (res_class result) of Inl e \<Rightarrow> Inl e | Inr action \<Rightarrow>
      case lookup_action (res_bagging result) of Inl e \<Rightarrow> Inl e | Inr bag \<Rightarrow>
      case lookup_action (res_boosting result) of Inl e \<Rightarrow> Inl e | Inr boost \<Rightarrow>
      case lookup_action (res_stacking result) of Inl e \<Rightarrow> Inl e | Inr stack \<Rightarrow>
        Inr \<lparr> d_symbol = symbol,
              d_action = action,
              d_confidence = res_confidence result * 100,
              d_delta = res_delta result,
              d_ensemble_agreement = (res_agreement_rate result = 1.0),
              d_agreement_rate = res_agreement_rate result * 100,
              d_bagging = bag,
              d_boosting = boost,
              d_stacking = stack,
              d_timestamp = tk_datetime last_row,
              d_price = tk_price last_row \<rparr>)"

text \<open>
  \<open>HFTModel.predict\<close>. Two collaborators are parameters: \<open>infer\<close> is
  \<open>EnsemblePredictor.predict\<close> (the networks) on the prepared sequence and
  indicators, and \<open>data symbol\<close> is what reading the table and selecting the
  symbol's rows, sorted by time, gives (or the exception that reading raises).
  \<open>window_seconds\<close> is a natural number; with 0 the window is empty and
  \<open>iloc[-1]\<close> raises.
\<close>

type_synonym 'm inference = "'m ensemble \<Rightarrow> real list \<Rightarrow> real list \<Rightarrow> error + ens_row list"

definition predict ::
  "'m inference \<Rightarrow> 'm hft_model \<Rightarrow> (string \<Rightarrow> error + tick list) \<Rightarrow> string \<Rightarrow> nat
     \<Rightarrow> error + decision" where
  "predict infer self data symbol window_seconds =
     (if \<not> is_loaded self
      then Inl (RuntimeError ''Model not loaded. Call load_ensemble() first.'')
      else case data symbol of Inl e \<Rightarrow> Inl e | Inr df_sym \<Rightarrow>
        if length df_sym < window_seconds
        then Inl (ValueError (''Insufficient data for '' @ symbol))
        else
          (let window_data = drop (length df_sym - window_seconds) df_sym;
               seq = normalize (map tk_price window_data)
           in if window_data = []
              then Inl (IndexError ''single positional indexer is out-of-bounds'')
              else
                (let last_row = last window_data;
                     ind = indicators_of last_row
                 in case (predictor self, ensemble self) of
                      (True, Some ens) \<Rightarrow>
                        (case infer ens seq ind of Inl e \<Rightarrow> Inl e | Inr rows \<Rightarrow>
                           (case predict_ensemble_high_confidence 0.75 rows of
                              [] \<Rightarrow> Inl (IndexError ''list index out of range'')
                            | result # rest \<Rightarrow> format_response symbol last_row result))
                    | _ \<Rightarrow> Inl (AttributeError ''predict_ensemble_high_confidence''))))"

text \<open>
  \<open>HFTModel.predict_batch\<close>: the loop appends one entry per symbol, the result of
  \<open>predict\<close> or, when it raised, the symbol with \<open>str(e)\<close>.
\<close>

datatype batch_entry = Prediction decision | Failure string string

fun predict_batch_loop ::
  "'m inference \<Rightarrow> 'm hft_model \<Rightarrow> (string \<Rightarrow> error + tick list) \<Rightarrow> batch_entry list
     \<Rightarrow> string list \<Rightarrow> batch_entry list" where
  "predict_batch_loop infer self data results [] = results"
| "predict_batch_loop infer self data results (symbol # symbols) =
     (case predict infer self data symbol 128 of
        Inr result \<Rightarrow> predict_batch_loop infer self data (results @ [Prediction result]) symbols
      | Inl e \<Rightarrow> predict_batch_loop infer self data (results @ [Failure symbol (str e)]) symbols)"

definition predict_batch ::
  "'m inference \<Rightarrow> 'm hft_model \<Rightarrow> (string \<Rightarrow> error + tick list) \<Rightarrow> string list
     \<Rightarrow> batch_entry list" where
  "predict_batch infer self data symbols = predict_batch_loop infer self data [] symbols"

section \<open>Example inputs\<close>

text \<open>
  Rows of ensemble output used in the examples below. In \<open>unanimous_row r\<close> the
  three methods return the same row \<open>r\<close>; in \<open>outvoted_row\<close> bagging and boosting
  prefer class 0 and stacking, more strongly, class 1; in \<open>split_row\<close> every method
  prefers another class.
\<close>

definition unanimous_row :: "row \<Rightarrow> ens_row" where
  "unanimous_row r = combine_methods (r, 0) (r, 0) (r, 0)"

definition outvoted_row :: ens_row where
  "outvoted_row = combine_methods ((0.5, 0.3, 0.2), 0) ((0.5, 0.3, 0.2), 0) ((0, 0.9, 0.1), 0)"

definition split_row :: ens_row where
  "split_row = combine_methods ((0.6, 0.2, 0.2), 0) ((0.2, 0.6, 0.2), 0) ((0.2, 0.2, 0.6), 0)"

definition confident_row :: ens_row where
  "confident_row = unanimous_row (0.9, 0.05, 0.05)"

definition weak_row :: ens_row where
  "weak_row = unanimous_row (0.35, 0.33, 0.32)"

definition firm_row :: ens_row where
  "firm_row = unanimous_row (25 / 66, 21 / 66, 20 / 66)"

text \<open>A model directory with two base models and a meta model, networks that
  always answer \<open>confident_row\<close>, and a table with 128 rows for one symbol only.\<close>

definition example_dir :: "nat model_dir" where
  "example_dir = \<lparr> base_model_files = [(0, Stored 0), (1, Stored 1)],
                    meta_model_file = Some (Stored 2), model_weights_file = None \<rparr>"

definition example_infer :: "nat inference" where
  "example_infer ens seq ind = Inr [confident_row]"

definition example_tick :: tick where
  "example_tick = \<lparr> tk_datetime = ''2024-01-01 09:15:00'', tk_price = 100, tk_columns = Map.empty \<rparr>"

definition example_data :: "string \<Rightarrow> error + tick list" where
  "example_data symbol = (if symbol = ''TCS'' then Inr (replicate 128 example_tick) else Inr [])"

section \<open>Facts about the numpy functions\<close>

text \<open>A map that preserves the strict order of the entries preserves the argmax.\<close>

lemma argmax_from_map:
  assumes "\<And>x y. x \<in> set (b # xs) \<Longrightarrow> y \<in> set (b # xs) \<Longrightarrow> (f x < f y) = (x < y)"
  shows "argmax_from (f b) bi i (map f xs) = argmax_from b bi i xs"
  using assms
proof (induction xs arbitrary: b bi i)
  case Nil
  show ?case by simp
next
  case (Cons x xs)
  have step: "(f b < f x) = (b < x)"
    using Cons.prems by simp
  show ?case
  proof (cases "b < x")
    case True
    have "argmax_from (f x) i (Suc i) (map f xs) = argmax_from x i (Suc i) xs"
      using Cons.prems by (intro Cons.IH) auto
    with True step show ?thesis by simp
  next
    case False
    have "argmax_from (f b) bi (Suc i) (map f xs) = argmax_from b bi (Suc i) xs"
      using Cons.prems by (intro Cons.IH) auto
    with False step show ?thesis by simp
  qed
qed

lemma argmax_map:
  assumes "\<And>x y. x \<in> set xs \<Longrightarrow> y \<in> set xs \<Longrightarrow> (f x < f y) = (x < y)"
  shows "argmax (map f xs) = argmax xs"
proof (cases xs)
  case Nil
  then show ?thesis by simp
next
  case (Cons b ys)
  with assms show ?thesis
    using argmax_from_map [of b ys f 0 1] by simp
qed

lemma sum_list_exp_nonneg:
  fixes g :: "'a \<Rightarrow> real"
  shows "0 \<le> sum_list (map (\<lambda>x. exp (g x)) xs)"
  by (induction xs) simp_all

lemma sum_list_exp_pos:
  fixes g :: "'a \<Rightarrow> real"
  assumes "xs \<noteq> []"
  shows "0 < sum_list (map (\<lambda>x. exp (g x)) xs)"
proof (cases xs)
  case Nil
  with assms show ?thesis by simp
next
  case (Cons y ys)
  have "0 < exp (g y)" by simp
  moreover have "0 \<le> sum_list (map (\<lambda>x. exp (g x)) ys)"
    by (rule sum_list_exp_nonneg)
  ultimately have "0 < exp (g y) + sum_list (map (\<lambda>x. exp (g x)) ys)"
    by (rule add_pos_nonneg)
  then show ?thesis
    using Cons by simp
qed

lemma temperature_scaling_map:
  "temperature_scaling (map g xs) t =
     map (\<lambda>p. exp (g p / t - amax (map (\<lambda>p. g p / t) xs))
              / sum_list (map (\<lambda>p. exp (g p / t - amax (map (\<lambda>p. g p / t) xs))) xs)) xs"
  by (simp add: temperature_scaling_def Let_def comp_def)

lemma scaled_order:
  fixes t S M p q :: real
  assumes "0 < t" and "0 < S" and "0 \<le> p" and "0 \<le> q"
  shows "(exp (ln (p + 1 / 10 ^ 10) / t - M) / S < exp (ln (q + 1 / 10 ^ 10) / t - M) / S) = (p < q)"
proof -
  have pos: "0 < p + 1 / 10 ^ 10" "0 < q + 1 / 10 ^ 10"
    using assms by (simp_all add: add_nonneg_pos)
  have "(exp (ln (p + 1 / 10 ^ 10) / t - M) / S < exp (ln (q + 1 / 10 ^ 10) / t - M) / S)
      = (exp (ln (p + 1 / 10 ^ 10) / t - M) < exp (ln (q + 1 / 10 ^ 10) / t - M))"
    using \<open>0 < S\<close> by (simp add: divide_less_cancel)
  also have "\<dots> = (ln (p + 1 / 10 ^ 10) / t < ln (q + 1 / 10 ^ 10) / t)"
    by simp
  also have "\<dots> = (ln (p + 1 / 10 ^ 10) < ln (q + 1 / 10 ^ 10))"
    using \<open>0 < t\<close> by (simp add: divide_less_cancel)
  also have "\<dots> = (p + 1 / 10 ^ 10 < q + 1 / 10 ^ 10)"
    using pos by (rule ln_less_cancel_iff)
  also have "\<dots> = (p < q)" by simp
  finally show ?thesis .
qed

text \<open>
  Temperature scaling of the logarithms keeps the order of non-negative
  probabilities, so the class of the additive pipeline is the argmax of the final
  probabilities.
\<close>

lemma cc_class_is_argmax:
  assumes "\<And>p. p \<in> set (entries (action_probs s)) \<Longrightarrow> 0 \<le> p"
  shows "argmax (cc_scaled_probs s) = argmax (entries (action_probs s))"
proof -
  let ?xs = "entries (action_probs s)"
  have ne: "?xs \<noteq> []"
    by (simp add: entries_def split: prod.splits)
  let ?M = "amax (map (\<lambda>p. ln (p + 1 / 10 ^ 10) / 1.2) ?xs)"
  let ?S = "sum_list (map (\<lambda>p. exp (ln (p + 1 / 10 ^ 10) / 1.2 - ?M)) ?xs)"
  have S: "0 < ?S"
    using ne by (rule sum_list_exp_pos)
  have "cc_scaled_probs s = map (\<lambda>p. exp (ln (p + 1 / 10 ^ 10) / 1.2 - ?M) / ?S) ?xs"
    unfolding cc_scaled_probs_def by (rule temperature_scaling_map)
  moreover have "argmax (map (\<lambda>p. exp (ln (p + 1 / 10 ^ 10) / 1.2 - ?M) / ?S) ?xs) = argmax ?xs"
  proof (rule argmax_map)
    fix x y assume "x \<in> set ?xs" "y \<in> set ?xs"
    then have "0 \<le> x" "0 \<le> y" using assms by blast+
    with S show "(exp (ln (x + 1 / 10 ^ 10) / 1.2 - ?M) / ?S < exp (ln (y + 1 / 10 ^ 10) / 1.2 - ?M) / ?S) = (x < y)"
      by (intro scaled_order) simp_all
  qed
  ultimately show ?thesis by simp
qed

section \<open>Facts about the example rows\<close>

lemma final_action_same: "final_action r r r = r"
  by (cases r) (simp add: final_action_def)

lemma unanimous_fields:
  "action_probs (unanimous_row r) = r" "bagging (unanimous_row r) = r"
  "boosting (unanimous_row r) = r" "stacking (unanimous_row r) = r" "delta (unanimous_row r) = 0"
  by (simp_all add: unanimous_row_def combine_methods_def final_action_same)

lemma unanimous_rate: "hc_agreement_rate (unanimous_row r) = 1"
  by (simp add: hc_agreement_rate_def hc_predictions_def unanimous_fields Let_def)

lemma unanimous_boosted:
  "hc_boosted_confidence (unanimous_row r) = ensemble_confidence_boost (amax (entries r)) 1 5"
  by (simp add: hc_boosted_confidence_def unanimous_rate unanimous_fields Let_def)

lemma unanimous_result:
  "hc_result mc (unanimous_row r) =
     \<lparr> res_class = argmax (entries r),
       res_confidence = ensure_minimum_confidence mc (ensemble_confidence_boost (amax (entries r)) 1 5) 1,
       res_delta = 0, res_agreement_rate = 1,
       res_bagging = argmax (entries r), res_boosting = argmax (entries r),
       res_stacking = argmax (entries r) \<rparr>"
  by (simp add: hc_result_def unanimous_rate unanimous_boosted unanimous_fields Let_def)

lemma outvoted_fields:
  "action_probs outvoted_row = (1/3, 1/2, 1/6)"
  "cc_all_preds outvoted_row = [0, 0, 1]"
  by (simp_all add: outvoted_row_def combine_methods_def final_action_def cc_all_preds_def
      entries_def)

lemma outvoted_class: "res_class (cc_result mc outvoted_row) = 1"
proof -
  have "argmax (cc_scaled_probs outvoted_row) = argmax (entries (action_probs outvoted_row))"
    by (rule cc_class_is_argmax) (auto simp: outvoted_fields entries_def)
  then show ?thesis
    by (simp add: cc_result_def Let_def outvoted_fields entries_def)
qed

lemma split_rate: "hc_agreement_rate split_row = 1/3"
  by (simp add: hc_agreement_rate_def hc_predictions_def split_row_def combine_methods_def
      final_action_def entries_def Let_def)

lemma split_cc_rate: "cc_agreement_rate split_row = 1/3"
  by (simp add: cc_agreement_rate_def cc_all_preds_def split_row_def combine_methods_def
      entries_def Let_def)

lemma split_boosted: "hc_boosted_confidence split_row = 14/45"
  by (simp add: hc_boosted_confidence_def split_rate Let_def)
     (simp add: split_row_def combine_methods_def final_action_def entries_def
        ensemble_confidence_boost_def Let_def)

lemma example_loaded:
  "is_loaded (load_ensemble HFTModel example_dir)"
  "predictor (load_ensemble HFTModel example_dir)"
  "ensemble (load_ensemble HFTModel example_dir) =
     Some \<lparr> n_models = 5, base_models = [0, 1], meta_model = Some 2, model_weights = None \<rparr>"
  by (simp_all add: load_ensemble_def load_def load_meta_model_def load_model_weights_def
      EnsemblePredictor_def example_dir_def HFTModel_def)

lemma example_infy:
  "predict example_infer (load_ensemble HFTModel example_dir) example_data ''INFY'' 128
     = Inl (ValueError ''Insufficient data for INFY'')"
  by (simp add: predict_def example_loaded example_data_def)

lemma example_result:
  assumes "mc \<le> 0.95"
  shows "predict_ensemble_high_confidence mc [confident_row] =
     [\<lparr> res_class = 0, res_confidence = 0.95, res_delta = 0, res_agreement_rate = 1,
        res_bagging = 0, res_boosting = 0, res_stacking = 0 \<rparr>]"
  using assms
  by (simp add: predict_ensemble_high_confidence_def confident_row_def unanimous_result
      ensure_minimum_confidence_def floor_applies_def ensemble_confidence_boost_def entries_def
      Let_def)

lemma example_tcs:
  "predict example_infer (load_ensemble HFTModel example_dir) example_data ''TCS'' 128
     = Inr \<lparr> d_symbol = ''TCS'', d_action = ''SELL'', d_confidence = 95, d_delta = 0,
             d_ensemble_agreement = True, d_agreement_rate = 100,
             d_bagging = ''SELL'', d_boosting = ''SELL'', d_stacking = ''SELL'',
             d_timestamp = ''2024-01-01 09:15:00'', d_price = 100 \<rparr>"
  unfolding predict_def
  by (simp add: example_loaded example_data_def example_infer_def Let_def example_result
      format_response_def lookup_action_def action_map_def example_tick_def)

section \<open>The agreement rate\<close>

text \<open>
  In \<open>model.py\<close> the agreement rate of a result is the number of the three method
  classes (bagging, boosting, stacking) equal to the class of the final decision,
  divided by 3, and it is 1.0 exactly when all three equal the final class.
\<close>

lemma hc_agreement_rate_counts:
  "res_agreement_rate (hc_result mc s) =
     real (length (filter (\<lambda>p. p = res_class (hc_result mc s))
        [res_bagging (hc_result mc s), res_boosting (hc_result mc s),
         res_stacking (hc_result mc s)])) / 3
   \<and> (res_agreement_rate (hc_result mc s) = 1.0 \<longleftrightarrow>
        res_bagging (hc_result mc s) = res_class (hc_result mc s) \<and>
        res_boosting (hc_result mc s) = res_class (hc_result mc s) \<and>
        res_stacking (hc_result mc s) = res_class (hc_result mc s))"
  by (simp add: hc_result_def hc_agreement_rate_def hc_predictions_def Let_def)

text \<open>
  In \<open>models/confidence-calibration.py\<close> the rate is the number of the three
  method classes equal to \<open>all_preds[0]\<close>, the bagging class, divided by 3.
\<close>

lemma cc_agreement_rate_counts:
  "res_agreement_rate (cc_result mc s) =
     real (length (filter (\<lambda>p. p = res_bagging (cc_result mc s))
        [res_bagging (cc_result mc s), res_boosting (cc_result mc s),
         res_stacking (cc_result mc s)])) / 3"
  by (simp add: cc_result_def cc_agreement_rate_def cc_all_preds_def Let_def)

text \<open>
  When the three methods prefer the same class, so does their mean. Hence, on a
  row that \<open>EnsemblePredictor.predict\<close> built from non-negative probabilities,
  the rate of \<open>models/confidence-calibration.py\<close> is 1.0 exactly when the three
  method classes equal the final class: that part of the claim holds there too.
\<close>

lemma final_action_argmax:
  assumes "argmax (entries a) = k" and "argmax (entries b) = k" and "argmax (entries c) = k"
  shows "argmax (entries (final_action a b c)) = k"
proof -
  obtain a0 a1 a2 where a: "a = (a0, a1, a2)" by (cases a)
  obtain b0 b1 b2 where b: "b = (b0, b1, b2)" by (cases b)
  obtain c0 c1 c2 where c: "c = (c0, c1, c2)" by (cases c)
  show ?thesis
    using assms unfolding a b c
    by (auto simp: entries_def final_action_def split: if_splits)
qed

lemma cc_rate_one_iff_final:
  assumes "action_probs s = final_action (bagging s) (boosting s) (stacking s)"
    and "\<And>p. p \<in> set (entries (action_probs s)) \<Longrightarrow> 0 \<le> p"
  shows "res_agreement_rate (cc_result mc s) = 1.0 \<longleftrightarrow>
        res_bagging (cc_result mc s) = res_class (cc_result mc s) \<and>
        res_boosting (cc_result mc s) = res_class (cc_result mc s) \<and>
        res_stacking (cc_result mc s) = res_class (cc_result mc s)"
proof -
  have cls: "res_class (cc_result mc s) = argmax (entries (action_probs s))"
    using cc_class_is_argmax [OF assms(2)] by (simp add: cc_result_def Let_def)
  have rate: "res_agreement_rate (cc_result mc s) = 1.0 \<longleftrightarrow>
      argmax (entries (boosting s)) = argmax (entries (bagging s)) \<and>
      argmax (entries (stacking s)) = argmax (entries (bagging s))"
    by (simp add: cc_result_def cc_agreement_rate_def cc_all_preds_def Let_def)
  have fields: "res_bagging (cc_result mc s) = argmax (entries (bagging s))"
    "res_boosting (cc_result mc s) = argmax (entries (boosting s))"
    "res_stacking (cc_result mc s) = argmax (entries (stacking s))"
    by (simp_all add: cc_result_def Let_def)
  show ?thesis
  proof
    assume "res_agreement_rate (cc_result mc s) = 1.0"
    with rate have eq: "argmax (entries (boosting s)) = argmax (entries (bagging s))"
      "argmax (entries (stacking s)) = argmax (entries (bagging s))" by simp_all
    have "argmax (entries (final_action (bagging s) (boosting s) (stacking s)))
        = argmax (entries (bagging s))"
      using eq by (intro final_action_argmax) simp_all
    then show "res_bagging (cc_result mc s) = res_class (cc_result mc s) \<and>
        res_boosting (cc_result mc s) = res_class (cc_result mc s) \<and>
        res_stacking (cc_result mc s) = res_class (cc_result mc s)"
      unfolding cls fields assms(1) using eq by simp
  next
    assume "res_bagging (cc_result mc s) = res_class (cc_result mc s) \<and>
        res_boosting (cc_result mc s) = res_class (cc_result mc s) \<and>
        res_stacking (cc_result mc s) = res_class (cc_result mc s)"
    then show "res_agreement_rate (cc_result mc s) = 1.0"
      unfolding rate fields by simp
  qed
qed

lemma hc_outvoted_rate: "hc_agreement_rate outvoted_row = 1/3"
  by (simp add: hc_agreement_rate_def hc_predictions_def outvoted_row_def combine_methods_def
      final_action_def entries_def Let_def)


text \<open>
  Claim C1 says that for every prediction the agreement rate is the number of the
  three method classes equal to the class of the final decision, divided by 3.
  \<open>models/confidence-calibration.py\<close> does otherwise. On \<open>outvoted_row\<close>, which is
  what \<open>predict\<close> returns for bagging and boosting (0.5, 0.3, 0.2) and stacking
  (0, 0.9, 0.1), the final class is 1 and only stacking predicts it. \<open>model.py\<close>
  reports the rate 1/3, the share of methods that agree with the final class;
  \<open>models/confidence-calibration.py\<close> reports 2/3, the share of methods that agree
  with bagging, although one method of three agrees with its final class.
\<close>

theorem agreement_against_bagging_diverges:
  "action_probs outvoted_row =
     final_action (bagging outvoted_row) (boosting outvoted_row) (stacking outvoted_row) \<and>
   res_class (hc_result 0.75 outvoted_row) = 1 \<and>
   res_agreement_rate (hc_result 0.75 outvoted_row) = 1/3 \<and>
   res_class (cc_result 0.75 outvoted_row) = 1 \<and>
   [res_bagging (cc_result 0.75 outvoted_row), res_boosting (cc_result 0.75 outvoted_row),
    res_stacking (cc_result 0.75 outvoted_row)] = [0, 0, 1] \<and>
   real (length (filter (\<lambda>p. p = res_class (cc_result 0.75 outvoted_row))
      [res_bagging (cc_result 0.75 outvoted_row), res_boosting (cc_result 0.75 outvoted_row),
       res_stacking (cc_result 0.75 outvoted_row)])) / 3 = 1/3 \<and>
   res_agreement_rate (cc_result 0.75 outvoted_row) = 2/3"
proof -
  have rate: "res_agreement_rate (cc_result mc outvoted_row) = 2/3" for mc
    by (simp add: cc_result_def Let_def cc_agreement_rate_def outvoted_fields)
  have "cc_all_preds outvoted_row =
      [argmax (entries (bagging outvoted_row)), argmax (entries (boosting outvoted_row)),
       argmax (entries (stacking outvoted_row))]"
    by (simp add: cc_all_preds_def Let_def)
  then have fields: "res_bagging (cc_result mc outvoted_row) = 0"
    "res_boosting (cc_result mc outvoted_row) = 0"
    "res_stacking (cc_result mc outvoted_row) = 1" for mc
    by (simp_all add: cc_result_def Let_def outvoted_fields)
  have combined: "action_probs outvoted_row =
     final_action (bagging outvoted_row) (boosting outvoted_row) (stacking outvoted_row)"
    by (simp add: outvoted_row_def combine_methods_def)
  have hc_class: "res_class (hc_result mc outvoted_row) = 1" for mc
    by (simp add: hc_result_def Let_def outvoted_fields entries_def)
  have hc_rate: "res_agreement_rate (hc_result mc outvoted_row) = 1/3" for mc
    by (simp add: hc_result_def Let_def hc_outvoted_rate)
  show ?thesis
    by (simp add: rate fields outvoted_class hc_class hc_rate combined [symmetric])
qed

section \<open>The boost formulas\<close>

text \<open>
  Claim C2. Under the multiplicative policy the boosted confidence is
  \<open>base_confidence * (1 + (agreement_rate - 0.5) * 0.4)\<close>, multiplied by 1.6 when
  the agreement rate is 1.0, multiplied by 1.1 when the agreement rate is at least
  0.8, and capped at 0.95, for every base confidence and agreement rate.
\<close>

theorem multiplicative_boost_formula:
  "ensemble_confidence_boost base_confidence agreement_rate n =
     min (base_confidence * (1 + (agreement_rate - 0.5) * 0.4)
            * (if agreement_rate = 1.0 then 1.6 else 1)
            * (if agreement_rate \<ge> 0.8 then 1.1 else 1))
         0.95"
  by (simp add: ensemble_confidence_boost_def Let_def)

text \<open>
  Claim C3. Under the additive policy the boosted confidence is
  \<open>base_confidence + agreement_rate * 0.3 + min(n_models / 10, 0.1)\<close>, capped at
  0.99, for every base confidence, agreement rate and number of models.
\<close>

theorem additive_boost_formula:
  "cc_ensemble_confidence_boost base_confidence agreement_rate n =
     min (base_confidence + agreement_rate * 0.3 + min (real_of_int n / 10) 0.1) 0.99"
  by (simp add: cc_ensemble_confidence_boost_def Let_def)

section \<open>The cap\<close>

lemma boost_le_cap: "ensemble_confidence_boost b a n \<le> 0.95"
  unfolding ensemble_confidence_boost_def Let_def by (rule min.cobounded2)

lemma cc_boost_le_cap: "cc_ensemble_confidence_boost b a n \<le> 0.99"
  unfolding cc_ensemble_confidence_boost_def Let_def by (rule min.cobounded2)

lemma cc_boosted_le_cap: "cc_boosted_confidence b a \<le> 0.99"
proof (cases "a = 1")
  case True
  have "min (cc_ensemble_confidence_boost b a 5 * 1.2) 0.95 \<le> (0.99::real)"
    by simp
  with True show ?thesis by (simp add: cc_boosted_confidence_def Let_def)
next
  case False
  with cc_boost_le_cap [of b a 5] show ?thesis
    by (simp add: cc_boosted_confidence_def Let_def)
qed

lemma ensure_minimum_le:
  assumes "b \<le> cap" and "mc + 0.05 \<le> cap"
  shows "ensure_minimum_confidence mc b a \<le> cap"
  using assms by (simp add: ensure_minimum_confidence_def)

lemma hc_result_le_cap:
  assumes "mc + 0.05 \<le> 0.95"
  shows "res_confidence (hc_result mc s) \<le> 0.95"
proof -
  have "hc_boosted_confidence s \<le> 0.95"
    unfolding hc_boosted_confidence_def Let_def by (rule boost_le_cap)
  then have "ensure_minimum_confidence mc (hc_boosted_confidence s) (hc_agreement_rate s) \<le> 0.95"
    using assms by (rule ensure_minimum_le)
  then show ?thesis
    unfolding hc_result_def Let_def by simp
qed

lemma cc_result_le_cap:
  assumes "mc + 0.05 \<le> 0.99"
  shows "res_confidence (cc_result mc s) \<le> 0.99"
proof -
  have "cc_boosted_confidence (cc_base_confidence s) (cc_agreement_rate s) \<le> 0.99"
    by (rule cc_boosted_le_cap)
  then have "cc_confidence mc (cc_base_confidence s) (cc_agreement_rate s) \<le> 0.99"
    unfolding cc_confidence_def using assms by (rule ensure_minimum_le)
  then show ?thesis
    unfolding cc_result_def Let_def by simp
qed

lemma format_response_confidence:
  "format_response symbol last_row result = Inr d \<Longrightarrow> d_confidence d = res_confidence result * 100"
  by (auto simp: format_response_def split: sum.splits)

lemma predict_confidence:
  assumes "predict infer self data symbol w = Inr d"
  shows "\<exists>row. d_confidence d = res_confidence (hc_result 0.75 row) * 100"
proof -
  from assms obtain rows result rest last_row
    where "predict_ensemble_high_confidence 0.75 rows = result # rest"
      and "format_response symbol last_row result = Inr d"
    by (auto simp: predict_def Let_def
        split: if_splits sum.splits list.splits option.splits bool.splits)
  then show ?thesis
    by (cases rows) (auto simp: predict_ensemble_high_confidence_def
        dest: format_response_confidence)
qed

lemma predict_confidence_le:
  assumes "predict infer self data symbol w = Inr d"
  shows "d_confidence d \<le> 95"
proof -
  from assms obtain row where d: "d_confidence d = res_confidence (hc_result 0.75 row) * 100"
    using predict_confidence by blast
  have "res_confidence (hc_result 0.75 row) \<le> 0.95"
    by (rule hc_result_le_cap) simp
  with d show ?thesis by simp
qed

text \<open>
  Claim C4, as the code has it. Both boost functions never return more than their
  cap (0.95 multiplicative, 0.99 additive), whatever the pre-cap value. The floor
  is applied after the cap and sets the confidence to \<open>min_confidence + 0.05\<close>, so
  the confidence of a result stays within the cap whenever
  \<open>min_confidence + 0.05\<close> does; this holds for the default 0.75, and the
  confidence that \<open>HFTModel.predict\<close> reports, a percentage, is at most 95.
\<close>

theorem confidence_within_cap:
  "ensemble_confidence_boost b a n \<le> 0.95 \<and>
   cc_ensemble_confidence_boost b a n \<le> 0.99 \<and>
   (mc + 0.05 \<le> 0.95 \<longrightarrow> res_confidence (hc_result mc s) \<le> 0.95) \<and>
   (mc + 0.05 \<le> 0.99 \<longrightarrow> res_confidence (cc_result mc s) \<le> 0.99) \<and>
   (predict infer self data symbol w = Inr d \<longrightarrow> d_confidence d \<le> 95)"
  using boost_le_cap cc_boost_le_cap hc_result_le_cap cc_result_le_cap predict_confidence_le
  by blast

theorem confidence_within_cap_witness:
  "(0.75::real) + 0.05 \<le> 0.95 \<and> (0.75::real) + 0.05 \<le> 0.99 \<and>
   predict example_infer (load_ensemble HFTModel example_dir) example_data ''TCS'' 128
     = Inr \<lparr> d_symbol = ''TCS'', d_action = ''SELL'', d_confidence = 95, d_delta = 0,
             d_ensemble_agreement = True, d_agreement_rate = 100,
             d_bagging = ''SELL'', d_boosting = ''SELL'', d_stacking = ''SELL'',
             d_timestamp = ''2024-01-01 09:15:00'', d_price = 100 \<rparr> \<and>
   res_confidence (hc_result 0.75 confident_row) \<le> 0.95 \<and>
   res_confidence (cc_result 0.75 confident_row) \<le> 0.99"
  using confidence_within_cap [of 0 0 0 "0.75" confident_row example_infer
      "load_ensemble HFTModel example_dir" example_data "''TCS''" 128] example_tcs
  by simp

text \<open>
  With \<open>min_confidence = 0.95\<close> the unanimous row \<open>weak_row\<close> is boosted to
  0.7392, which is below 0.95, and the floor reports 1.0.
\<close>

theorem floor_above_cap_counterexample:
  "res_confidence (hc_result 0.95 weak_row) = 1 \<and> (0.95::real) < 1"
  by (simp add: weak_row_def unanimous_result ensure_minimum_confidence_def
      floor_applies_def ensemble_confidence_boost_def entries_def Let_def)

section \<open>The minimum-confidence floor\<close>

text \<open>
  Claim C5. The floor activates exactly when the boosted confidence is below
  \<open>min_confidence\<close> and the agreement rate is at least 0.67, and then the
  confidence is \<open>min_confidence + 0.05\<close>; otherwise the boosted confidence is
  reported. With an agreement rate of 1/3 the floor never triggers, however low
  the confidence. This holds in both modules.
\<close>

theorem minimum_confidence_floor:
  "res_confidence (hc_result mc s) =
     (if hc_boosted_confidence s < mc \<and> hc_agreement_rate s \<ge> 0.67
      then mc + 0.05 else hc_boosted_confidence s) \<and>
   (hc_agreement_rate s = 1/3 \<longrightarrow> res_confidence (hc_result mc s) = hc_boosted_confidence s) \<and>
   res_confidence (cc_result mc s) =
     (if cc_boosted_confidence (cc_base_confidence s) (cc_agreement_rate s) < mc
         \<and> cc_agreement_rate s \<ge> 0.67
      then mc + 0.05
      else cc_boosted_confidence (cc_base_confidence s) (cc_agreement_rate s)) \<and>
   (cc_agreement_rate s = 1/3 \<longrightarrow>
      res_confidence (cc_result mc s) =
        cc_boosted_confidence (cc_base_confidence s) (cc_agreement_rate s))"
  by (simp add: hc_result_def cc_result_def cc_confidence_def ensure_minimum_confidence_def
      floor_applies_def Let_def)

theorem minimum_confidence_floor_witness:
  "hc_agreement_rate split_row = 1/3 \<and> cc_agreement_rate split_row = 1/3 \<and>
   hc_boosted_confidence split_row < 0.75 \<and>
   res_confidence (hc_result 0.75 split_row) = hc_boosted_confidence split_row \<and>
   res_confidence (cc_result 0.75 split_row) =
     cc_boosted_confidence (cc_base_confidence split_row) (cc_agreement_rate split_row)"
  using minimum_confidence_floor [of "0.75" split_row]
  by (simp add: split_rate split_cc_rate split_boosted)

lemma rate_values:
  "hc_agreement_rate s = 0 \<or> hc_agreement_rate s = 1/3 \<or>
   hc_agreement_rate s = 2/3 \<or> hc_agreement_rate s = 1"
  by (simp add: hc_agreement_rate_def hc_predictions_def Let_def)

lemma high_rate_is_unanimous:
  assumes "hc_agreement_rate s \<ge> 0.67"
  shows "hc_agreement_rate s = 1"
  using assms rate_values [of s] by auto

lemma rate_one_preds:
  assumes "hc_agreement_rate s = 1"
  shows "hc_predictions s = (let c = argmax (entries (action_probs s)) in [c, c, c])"
  using assms
  by (simp add: hc_agreement_rate_def hc_predictions_def Let_def split: if_splits)

text \<open>
  Claim C6, as the code has it. The result has the fields \<open>class\<close>,
  \<open>confidence\<close>, \<open>delta\<close>, \<open>agreement_rate\<close> and \<open>ensemble_details\<close> and no
  other. When the floor overrides the computed confidence, the result is the
  record below: the confidence is \<open>min_confidence + 0.05\<close>, the agreement rate is
  1.0 and the three methods predict the final class. No field marks the override.
\<close>

theorem floored_result_shape:
  assumes "floor_applies mc (hc_boosted_confidence s) (hc_agreement_rate s)"
  shows "hc_result mc s =
     \<lparr> res_class = argmax (entries (action_probs s)),
       res_confidence = mc + 0.05,
       res_delta = delta s,
       res_agreement_rate = 1,
       res_bagging = argmax (entries (action_probs s)),
       res_boosting = argmax (entries (action_probs s)),
       res_stacking = argmax (entries (action_probs s)) \<rparr>"
proof -
  from assms have "hc_agreement_rate s \<ge> 0.67"
    by (simp add: floor_applies_def)
  then have one: "hc_agreement_rate s = 1"
    by (rule high_rate_is_unanimous)
  have "hc_predictions s = (let c = argmax (entries (action_probs s)) in [c, c, c])"
    using one by (rule rate_one_preds)
  then have preds: "argmax (entries (bagging s)) = argmax (entries (action_probs s))"
    "argmax (entries (boosting s)) = argmax (entries (action_probs s))"
    "argmax (entries (stacking s)) = argmax (entries (action_probs s))"
    by (simp_all add: hc_predictions_def Let_def)
  have conf: "ensure_minimum_confidence mc (hc_boosted_confidence s) (hc_agreement_rate s) = mc + 0.05"
    using assms by (simp add: ensure_minimum_confidence_def)
  show ?thesis
    unfolding hc_result_def Let_def conf by (simp add: one preds)
qed

theorem floored_result_shape_witness:
  "floor_applies 0.75 (hc_boosted_confidence weak_row) (hc_agreement_rate weak_row) \<and>
   hc_result 0.75 weak_row =
     \<lparr> res_class = 0, res_confidence = 0.8, res_delta = 0, res_agreement_rate = 1,
       res_bagging = 0, res_boosting = 0, res_stacking = 0 \<rparr>"
proof -
  have f: "floor_applies 0.75 (hc_boosted_confidence weak_row) (hc_agreement_rate weak_row)"
    by (simp add: floor_applies_def weak_row_def unanimous_boosted unanimous_rate
        ensemble_confidence_boost_def entries_def Let_def)
  show ?thesis
    using f floored_result_shape [OF f]
    by (simp add: weak_row_def unanimous_fields entries_def)
qed

text \<open>
  The floor overrides the confidence of \<open>weak_row\<close> (boosted to 0.7392) and not
  that of \<open>firm_row\<close> (boosted to exactly 0.8), and the two results are equal.
\<close>

theorem floor_unmarked_counterexample:
  "floor_applies 0.75 (hc_boosted_confidence weak_row) (hc_agreement_rate weak_row) \<and>
   \<not> floor_applies 0.75 (hc_boosted_confidence firm_row) (hc_agreement_rate firm_row) \<and>
   hc_result 0.75 weak_row = hc_result 0.75 firm_row"
  by (simp add: weak_row_def firm_row_def unanimous_result unanimous_boosted unanimous_rate
      floor_applies_def ensure_minimum_confidence_def ensemble_confidence_boost_def
      entries_def Let_def)

section \<open>Monotonicity in the agreement rate\<close>

text \<open>
  Claim C7. Under the multiplicative policy, for a fixed base confidence (a
  probability, so not negative), the boosted confidence does not decrease as the
  agreement rate goes through the values 1/3, 2/3, 1.
\<close>

theorem multiplicative_boost_monotone:
  assumes "0 \<le> base_confidence"
  shows "ensemble_confidence_boost base_confidence (1/3) n
           \<le> ensemble_confidence_boost base_confidence (2/3) n
       \<and> ensemble_confidence_boost base_confidence (2/3) n
           \<le> ensemble_confidence_boost base_confidence 1 n"
  using assms by (simp add: ensemble_confidence_boost_def Let_def min_def)

theorem multiplicative_boost_monotone_witness:
  "(0::real) \<le> 0.5 \<and>
   ensemble_confidence_boost 0.5 (1/3) 5 \<le> ensemble_confidence_boost 0.5 (2/3) 5 \<and>
   ensemble_confidence_boost 0.5 (2/3) 5 \<le> ensemble_confidence_boost 0.5 1 5"
  using multiplicative_boost_monotone [of "0.5" 5] by simp

section \<open>Loading without base models\<close>

lemma load_base_models_without_zero:
  "load_base_models (filter (\<lambda>(j, a). 0 < j) files) 0 [] = (None, [])"
proof -
  have "map_of (filter (\<lambda>(j, a). 0 < j) files) 0 = None"
    by (induction files) auto
  then show ?thesis by simp
qed

text \<open>
  Claim C8 says that without the base-model file of index 0 the system ends in a
  not-loaded state. The code does otherwise: for a directory with no
  \<open>base_model_0.keras\<close> (any files of higher index, and a meta model and weights
  that are absent or load), \<open>load_ensemble\<close> sets \<open>is_loaded\<close> with an empty list
  of base models, and \<open>predict\<close> passes its not-loaded check: on a table with no
  rows it fails on the data, not on the state.
\<close>

theorem missing_base_model_still_loaded:
  "is_loaded (load_ensemble self
      \<lparr> base_model_files = filter (\<lambda>(j, a). 0 < j) files,
        meta_model_file = map_option Stored meta,
        model_weights_file = map_option Stored weights \<rparr>) \<and>
   ensemble (load_ensemble self
      \<lparr> base_model_files = filter (\<lambda>(j, a). 0 < j) files,
        meta_model_file = map_option Stored meta,
        model_weights_file = map_option Stored weights \<rparr>)
     = Some \<lparr> n_models = 5, base_models = [], meta_model = meta, model_weights = weights \<rparr> \<and>
   predict infer (load_ensemble self
      \<lparr> base_model_files = filter (\<lambda>(j, a). 0 < j) files,
        meta_model_file = map_option Stored meta,
        model_weights_file = map_option Stored weights \<rparr>) (\<lambda>symbol. Inr []) symbol 128
     = Inl (ValueError (''Insufficient data for '' @ symbol))"
  by (cases meta; cases weights)
     (simp_all add: load_ensemble_def load_def load_base_models_without_zero load_meta_model_def
        load_model_weights_def EnsemblePredictor_def predict_def del: load_base_models.simps)

section \<open>Batch prediction\<close>

lemma predict_batch_loop_map:
  "predict_batch_loop infer self data results symbols =
     results @ map (\<lambda>symbol. case predict infer self data symbol 128 of
                                Inr result \<Rightarrow> Prediction result
                              | Inl e \<Rightarrow> Failure symbol (str e)) symbols"
  by (induction symbols arbitrary: results) (simp_all split: sum.splits)

lemma predict_batch_map:
  "predict_batch infer self data symbols =
     map (\<lambda>symbol. case predict infer self data symbol 128 of
                     Inr result \<Rightarrow> Prediction result
                   | Inl e \<Rightarrow> Failure symbol (str e)) symbols"
  by (simp add: predict_batch_def predict_batch_loop_map)

lemma format_response_symbol:
  "format_response symbol last_row result = Inr d \<Longrightarrow> d_symbol d = symbol"
  by (auto simp: format_response_def split: sum.splits)

lemma predict_symbol:
  "predict infer self data symbol w = Inr d \<Longrightarrow> d_symbol d = symbol"
  by (auto simp: predict_def Let_def
      split: if_splits sum.splits list.splits option.splits bool.splits
      dest: format_response_symbol)

text \<open>
  Claim C9. For every list of symbols, batch prediction returns exactly one entry
  per symbol, in input order. Where the prediction for the symbol fails, with
  whatever error, the entry holds that symbol and the error's message in place of
  a decision; where it succeeds, the entry is the decision, which carries the
  symbol. A failure does not stop the symbols after it.
\<close>

theorem predict_batch_isolates_failures:
  "length (predict_batch infer self data symbols) = length symbols \<and>
   (\<forall>i < length symbols.
      (\<forall>e. predict infer self data (symbols ! i) 128 = Inl e \<longrightarrow>
         predict_batch infer self data symbols ! i = Failure (symbols ! i) (str e)) \<and>
      (\<forall>d. predict infer self data (symbols ! i) 128 = Inr d \<longrightarrow>
         predict_batch infer self data symbols ! i = Prediction d \<and> d_symbol d = symbols ! i))"
  by (auto simp: predict_batch_map dest: predict_symbol)

theorem predict_batch_isolates_failures_witness:
  "length (predict_batch example_infer (load_ensemble HFTModel example_dir) example_data
      [''INFY'', ''TCS'']) = 2 \<and>
   predict_batch example_infer (load_ensemble HFTModel example_dir) example_data
      [''INFY'', ''TCS''] ! 0 = Failure ''INFY'' ''Insufficient data for INFY'' \<and>
   predict_batch example_infer (load_ensemble HFTModel example_dir) example_data
      [''INFY'', ''TCS''] ! 1 =
     Prediction \<lparr> d_symbol = ''TCS'', d_action = ''SELL'', d_confidence = 95, d_delta = 0,
             d_ensemble_agreement = True, d_agreement_rate = 100,
             d_bagging = ''SELL'', d_boosting = ''SELL'', d_stacking = ''SELL'',
             d_timestamp = ''2024-01-01 09:15:00'', d_price = 100 \<rparr>"
proof -
  let ?m = "load_ensemble HFTModel example_dir"
  let ?syms = "[''INFY'', ''TCS'']"
  note inst = predict_batch_isolates_failures [of example_infer ?m example_data ?syms]
  have len: "length (predict_batch example_infer ?m example_data ?syms) = 2"
    using inst by simp
  have first: "predict_batch example_infer ?m example_data ?syms ! 0
      = Failure ''INFY'' ''Insufficient data for INFY''"
    using inst example_infy by (auto dest!: spec [of _ 0])
  have second: "predict_batch example_infer ?m example_data ?syms ! 1 =
     Prediction \<lparr> d_symbol = ''TCS'', d_action = ''SELL'', d_confidence = 95, d_delta = 0,
             d_ensemble_agreement = True, d_agreement_rate = 100,
             d_bagging = ''SELL'', d_boosting = ''SELL'', d_stacking = ''SELL'',
             d_timestamp = ''2024-01-01 09:15:00'', d_price = 100 \<rparr>"
    using inst example_tcs by (auto dest!: spec [of _ 1])
  from len first second show ?thesis by simp
qed

section \<open>The additive pipeline is not monotone\<close>



end
